theory Spec2Isabelle
  imports Main "HOL-Library.Word"
begin

section \<open>Python values handled by the proxy (resources/app.py)\<close>

text \<open>
  A Python \<open>str\<close> is a sequence of Unicode code points; \<open>bytes\<close> is a sequence of
  octets. String literals of the source are written \<open>S ''...''\<close>.
\<close>

type_synonym pystr = "nat list"
type_synonym pybytes = "char list"

abbreviation (input) S :: "string \<Rightarrow> pystr" where
  "S s \<equiv> map of_char s"

text \<open>
  The values \<open>json.loads\<close> produces: \<open>None\<close>, \<open>bool\<close>, unbounded \<open>int\<close>,
  \<open>float\<close> (an IEEE-754 double, kept as its 64 bits), \<open>str\<close>, \<open>list\<close> and \<open>dict\<close>
  with string keys (an association list in insertion order; a decoder yields distinct
  keys, lookup takes the first binding).
\<close>

datatype json =
    JNull
  | JBool bool
  | JInt int
  | JFloat "64 word"
  | JStr pystr
  | JArr "json list"
  | JObj "(pystr \<times> json) list"

text \<open>The exceptions the modelled code can raise; all are subclasses of \<open>Exception\<close>.\<close>

datatype py_error = AttributeError | IndexError | KeyError | TypeError | OverflowError

definition ebind :: "py_error + 'a \<Rightarrow> ('a \<Rightarrow> py_error + 'b) \<Rightarrow> py_error + 'b" where
  "ebind m f = (case m of Inl e \<Rightarrow> Inl e | Inr v \<Rightarrow> f v)"

text \<open>Truth value testing (\<open>if x\<close>, \<open>not x\<close>, \<open>x or y\<close>). A float is false iff it is
  \<open>0.0\<close> or \<open>-0.0\<close>, that is, iff all bits but the sign bit are zero.\<close>

fun truthy :: "json \<Rightarrow> bool" where
  "truthy JNull = False"
| "truthy (JBool b) = b"
| "truthy (JInt i) = (i \<noteq> 0)"
| "truthy (JFloat w) = (take_bit 63 w \<noteq> 0)"
| "truthy (JStr s) = (s \<noteq> [])"
| "truthy (JArr xs) = (xs \<noteq> [])"
| "truthy (JObj kvs) = (kvs \<noteq> [])"

text \<open>\<open>d.get(k, default)\<close> on a dict, and the same method call on an arbitrary value:
  only a dict has the attribute \<open>get\<close>.\<close>

definition dict_get :: "(pystr \<times> json) list \<Rightarrow> pystr \<Rightarrow> json \<Rightarrow> json" where
  "dict_get kvs k d = (case map_of kvs k of None \<Rightarrow> d | Some v \<Rightarrow> v)"

definition dict_has :: "(pystr \<times> json) list \<Rightarrow> pystr \<Rightarrow> bool" where
  "dict_has kvs k = (map_of kvs k \<noteq> None)"

fun py_get :: "json \<Rightarrow> pystr \<Rightarrow> json \<Rightarrow> py_error + json" where
  "py_get (JObj kvs) k d = Inr (dict_get kvs k d)"
| "py_get v k d = Inl AttributeError"

text \<open>\<open>v[0]\<close>: the first element of a list, the first character of a string; a dict
  decoded from JSON has no key \<open>0\<close>; the other values are not subscriptable.\<close>

fun py_item0 :: "json \<Rightarrow> py_error + json" where
  "py_item0 (JArr []) = Inl IndexError"
| "py_item0 (JArr (x # xs)) = Inr x"
| "py_item0 (JStr []) = Inl IndexError"
| "py_item0 (JStr (c # cs)) = Inr (JStr [c])"
| "py_item0 (JObj kvs) = Inl KeyError"
| "py_item0 v = Inl TypeError"

text \<open>\<open>sep.join(items)\<close>: every item must be a \<open>str\<close>.\<close>

fun strs_of :: "json list \<Rightarrow> pystr list option" where
  "strs_of [] = Some []"
| "strs_of (JStr s # vs) = (case strs_of vs of None \<Rightarrow> None | Some ss \<Rightarrow> Some (s # ss))"
| "strs_of (v # vs) = None"

fun join_strs :: "pystr \<Rightarrow> pystr list \<Rightarrow> pystr" where
  "join_strs sep [] = []"
| "join_strs sep [s] = s"
| "join_strs sep (s # t # ss) = s @ sep @ join_strs sep (t # ss)"

definition py_join :: "pystr \<Rightarrow> json list \<Rightarrow> py_error + pystr" where
  "py_join sep items = (case strs_of items of None \<Rightarrow> Inl TypeError | Some ss \<Rightarrow> Inr (join_strs sep ss))"

subsection \<open>String methods\<close>

text \<open>\<open>str.splitlines()\<close> breaks at \<open>\n\<close>, \<open>\r\<close>, \<open>\r\n\<close>, \<open>\v\<close>, \<open>\f\<close>, \<open>\x1c\<close>,
  \<open>\x1d\<close>, \<open>\x1e\<close>, \<open>\x85\<close>, U+2028 and U+2029, and yields no empty last line.\<close>

definition is_linebreak :: "nat \<Rightarrow> bool" where
  "is_linebreak c = (c \<in> {0x0A, 0x0B, 0x0C, 0x0D, 0x1C, 0x1D, 0x1E, 0x85, 0x2028, 0x2029})"

fun split_acc :: "pystr \<Rightarrow> pystr \<Rightarrow> pystr list" where
  "split_acc acc [] = (if acc = [] then [] else [rev acc])"
| "split_acc acc (c # cs) =
     (if c = 0x0D \<and> take 1 cs = [0x0A] then rev acc # split_acc [] (drop 1 cs)
      else if is_linebreak c then rev acc # split_acc [] cs
      else split_acc (c # acc) cs)"

definition splitlines :: "pystr \<Rightarrow> pystr list" where
  "splitlines s = split_acc [] s"

text \<open>\<open>str.strip()\<close> removes leading and trailing whitespace (\<open>str.isspace\<close>).\<close>

definition is_space :: "nat \<Rightarrow> bool" where
  "is_space c = ((0x09 \<le> c \<and> c \<le> 0x0D) \<or> (0x1C \<le> c \<and> c \<le> 0x20) \<or> c = 0x85 \<or> c = 0xA0
      \<or> c = 0x1680 \<or> (0x2000 \<le> c \<and> c \<le> 0x200A) \<or> c = 0x2028 \<or> c = 0x2029
      \<or> c = 0x202F \<or> c = 0x205F \<or> c = 0x3000)"

definition strip :: "pystr \<Rightarrow> pystr" where
  "strip s = rev (dropWhile is_space (rev (dropWhile is_space s)))"

text \<open>\<open>p in s\<close> for strings, and \<open>s.split(p, 1)[-1]\<close>: what follows the first occurrence
  of \<open>p\<close>, the whole of \<open>s\<close> when \<open>p\<close> does not occur.\<close>

fun after_first :: "pystr \<Rightarrow> pystr \<Rightarrow> pystr option" where
  "after_first p [] = (if p = [] then Some [] else None)"
| "after_first p (c # cs) =
     (if take (length p) (c # cs) = p then Some (drop (length p) (c # cs))
      else after_first p cs)"

definition str_in :: "pystr \<Rightarrow> pystr \<Rightarrow> bool" where
  "str_in p s = (after_first p s \<noteq> None)"

definition split1_last :: "pystr \<Rightarrow> pystr \<Rightarrow> pystr" where
  "split1_last p s = (case after_first p s of None \<Rightarrow> s | Some rest \<Rightarrow> rest)"

section \<open>Utility helpers\<close>

text \<open>
  \<open>json.loads\<close> belongs to the standard library: the helpers take it as the parameter
  \<open>loads\<close>, with \<open>None\<close> for every exception it raises.

  \<^verbatim>\<open>
  def _safe_json_loads(text):
      try:
          return json.loads(text)
      except Exception:
          return {}
  \<close>
\<close>

definition safe_json_loads :: "(pystr \<Rightarrow> json option) \<Rightarrow> pystr \<Rightarrow> json" where
  "safe_json_loads loads text = (case loads text of None \<Rightarrow> JObj [] | Some v \<Rightarrow> v)"

text \<open>The lines both scanners work on:
  \<open>[ln.strip() for ln in blob.splitlines() if ln.strip()]\<close>, and the candidate of a line:
  \<open>line.split(prefix, 1)[-1] if (prefix and prefix in line) else line\<close>.\<close>

definition stripped_lines :: "pystr \<Rightarrow> pystr list" where
  "stripped_lines blob = map strip (filter (\<lambda>ln. strip ln \<noteq> []) (splitlines blob))"

definition candidate :: "pystr \<Rightarrow> pystr \<Rightarrow> pystr" where
  "candidate prefix line =
     (if prefix \<noteq> [] \<and> str_in prefix line then split1_last prefix line else line)"

text \<open>
  \<^verbatim>\<open>
  def _extract_last_json_from_blob(blob, prefix="stringValue:"):
      if not blob:
          return {}
      lines = [ln.strip() for ln in blob.splitlines() if ln.strip()] or [blob]
      for line in reversed(lines):
          candidate = line.split(prefix, 1)[-1] if (prefix and prefix in line) else line
          data = _safe_json_loads(candidate.strip())
          if data:
              return data
      return {}
  \<close>
\<close>

fun scan_lines :: "(pystr \<Rightarrow> json option) \<Rightarrow> pystr \<Rightarrow> pystr list \<Rightarrow> json" where
  "scan_lines loads prefix [] = JObj []"
| "scan_lines loads prefix (line # rest) =
     (let data = safe_json_loads loads (strip (candidate prefix line))
      in if truthy data then data else scan_lines loads prefix rest)"

definition extract_last_json_from_blob :: "(pystr \<Rightarrow> json option) \<Rightarrow> pystr \<Rightarrow> pystr \<Rightarrow> json" where
  "extract_last_json_from_blob loads blob prefix =
     (if blob = [] then JObj []
      else let lines = (if stripped_lines blob = [] then [blob] else stripped_lines blob)
           in scan_lines loads prefix (rev lines))"

definition default_prefix :: pystr where
  "default_prefix = S ''stringValue:''"

text \<open>
  \<^verbatim>\<open>
  def _aggregate_completion_from_stream(blob, prefix=""):
      if not blob:
          return ""
      pieces = []
      for ln in (ln.strip() for ln in blob.splitlines() if ln.strip()):
          candidate = ln.split(prefix, 1)[-1] if (prefix and prefix in ln) else ln
          obj = _safe_json_loads(candidate)
          if not obj:
              continue
          msg = obj.get("message", {})
          if msg.get("role") == "assistant":
              pieces.append(msg.get("content", ""))
          else:
              content = obj.get("choices", [{}])[0].get("delta", {}).get("content")
              if content:
                  pieces.append(content)
      return "".join(pieces)
  \<close>
  One iteration of the loop takes the pieces so far to the pieces after the line, or
  raises.
\<close>

definition aggregate_line ::
  "(pystr \<Rightarrow> json option) \<Rightarrow> pystr \<Rightarrow> json list \<Rightarrow> pystr \<Rightarrow> py_error + json list" where
  "aggregate_line loads prefix pieces ln =
     (let obj = safe_json_loads loads (candidate prefix ln) in
      if \<not> truthy obj then Inr pieces
      else
        ebind (py_get obj (S ''message'') (JObj [])) (\<lambda>msg.
        ebind (py_get msg (S ''role'') JNull) (\<lambda>role.
          if role = JStr (S ''assistant'') then
            ebind (py_get msg (S ''content'') (JStr [])) (\<lambda>c. Inr (pieces @ [c]))
          else
            ebind (py_get obj (S ''choices'') (JArr [JObj []])) (\<lambda>choices.
            ebind (py_item0 choices) (\<lambda>choice.
            ebind (py_get choice (S ''delta'') (JObj [])) (\<lambda>delta.
            ebind (py_get delta (S ''content'') JNull) (\<lambda>content.
              Inr (if truthy content then pieces @ [content] else pieces))))))))"

fun aggregate_lines ::
  "(pystr \<Rightarrow> json option) \<Rightarrow> pystr \<Rightarrow> json list \<Rightarrow> pystr list \<Rightarrow> py_error + json list" where
  "aggregate_lines loads prefix pieces [] = Inr pieces"
| "aggregate_lines loads prefix pieces (ln # rest) =
     ebind (aggregate_line loads prefix pieces ln)
       (\<lambda>pieces'. aggregate_lines loads prefix pieces' rest)"

definition aggregate_completion_from_stream ::
  "(pystr \<Rightarrow> json option) \<Rightarrow> pystr \<Rightarrow> pystr \<Rightarrow> py_error + pystr" where
  "aggregate_completion_from_stream loads blob prefix =
     (if blob = [] then Inr []
      else ebind (aggregate_lines loads prefix [] (stripped_lines blob)) (py_join []))"

text \<open>
  \<^verbatim>\<open>
  def _extract_first_completion_text(data):
      if not data:
          return ""
      try:
          return data.get("choices", [{}])[0].get("message", {}).get("content", "")
      except Exception:
          return data.get("choices", [{}])[0].get("text", "")
  \<close>
  An exception raised inside the handler of \<open>except\<close> is not caught.
\<close>

definition extract_first_completion_text :: "json \<Rightarrow> py_error + json" where
  "extract_first_completion_text data =
     (if \<not> truthy data then Inr (JStr [])
      else
        case ebind (py_get data (S ''choices'') (JArr [JObj []])) (\<lambda>choices.
             ebind (py_item0 choices) (\<lambda>choice.
             ebind (py_get choice (S ''message'') (JObj [])) (\<lambda>message.
               py_get message (S ''content'') (JStr []))))
        of Inr v \<Rightarrow> Inr v
         | Inl e \<Rightarrow>
             ebind (py_get data (S ''choices'') (JArr [JObj []])) (\<lambda>choices.
             ebind (py_item0 choices) (\<lambda>choice.
               py_get choice (S ''text'') (JStr []))))"

text \<open>
  Python's \<open>a + b\<close> on decoded values. \<open>bool\<close> is a subclass of \<open>int\<close>; an \<open>int\<close>
  meeting a \<open>float\<close> is converted first, which raises \<open>OverflowError\<close> when it is too
  large. Floating-point addition and the conversion are the interpreter's: they are the
  two fields of a \<open>float_ops\<close>.
\<close>

record float_ops =
  float_add :: "64 word \<Rightarrow> 64 word \<Rightarrow> 64 word"
  float_of_int :: "int \<Rightarrow> 64 word option"

fun as_int :: "json \<Rightarrow> int option" where
  "as_int (JInt i) = Some i"
| "as_int (JBool b) = Some (if b then 1 else 0)"
| "as_int v = None"

definition add_float_int :: "float_ops \<Rightarrow> 64 word \<Rightarrow> json \<Rightarrow> bool \<Rightarrow> py_error + json" where
  "add_float_int fo x v float_first =
     (case as_int v of
        None \<Rightarrow> Inl TypeError
      | Some i \<Rightarrow>
          (case float_of_int fo i of
             None \<Rightarrow> Inl OverflowError
           | Some y \<Rightarrow>
               Inr (JFloat (if float_first then float_add fo x y else float_add fo y x))))"

definition py_add :: "float_ops \<Rightarrow> json \<Rightarrow> json \<Rightarrow> py_error + json" where
  "py_add fo a b =
     (case a of
        JStr s \<Rightarrow> (case b of JStr t \<Rightarrow> Inr (JStr (s @ t)) | _ \<Rightarrow> Inl TypeError)
      | JArr xs \<Rightarrow> (case b of JArr ys \<Rightarrow> Inr (JArr (xs @ ys)) | _ \<Rightarrow> Inl TypeError)
      | JFloat x \<Rightarrow>
          (case b of
             JFloat y \<Rightarrow> Inr (JFloat (float_add fo x y))
           | _ \<Rightarrow> add_float_int fo x b True)
      | _ \<Rightarrow>
          (case b of
             JFloat y \<Rightarrow> add_float_int fo y a False
           | _ \<Rightarrow>
               (case as_int a of
                  None \<Rightarrow> Inl TypeError
                | Some i \<Rightarrow>
                    (case as_int b of None \<Rightarrow> Inl TypeError | Some j \<Rightarrow> Inr (JInt (i + j))))))"

text \<open>
  \<^verbatim>\<open>
  def _extract_usage_from_data(data):
      if not data:
          return None, None, None
      usage = data.get("usage", {})
      if usage:
          return usage.get("prompt_tokens"), usage.get("completion_tokens"), usage.get("total_tokens")
      if "prompt_eval_count" in data or "eval_count" in data:
          prompt = data.get("prompt_eval_count")
          completion = data.get("eval_count")
          total = prompt + completion if (prompt is not None and completion is not None) else None
          return prompt, completion, total
      return None, None, None
  \<close>
  \<open>data.get\<close> raises on everything but a dict, so the membership tests are reached with
  a dict only.
\<close>

definition extract_usage_from_data :: "float_ops \<Rightarrow> json \<Rightarrow> py_error + (json \<times> json \<times> json)" where
  "extract_usage_from_data fo data =
     (if \<not> truthy data then Inr (JNull, JNull, JNull)
      else
        case data of
          JObj kvs \<Rightarrow>
            (let usage = dict_get kvs (S ''usage'') (JObj []) in
             if truthy usage then
               ebind (py_get usage (S ''prompt_tokens'') JNull) (\<lambda>p.
               ebind (py_get usage (S ''completion_tokens'') JNull) (\<lambda>c.
               ebind (py_get usage (S ''total_tokens'') JNull) (\<lambda>t.
                 Inr (p, c, t))))
             else if dict_has kvs (S ''prompt_eval_count'') \<or> dict_has kvs (S ''eval_count'') then
               (let prompt = dict_get kvs (S ''prompt_eval_count'') JNull;
                    completion = dict_get kvs (S ''eval_count'') JNull
                in ebind (if prompt \<noteq> JNull \<and> completion \<noteq> JNull
                          then py_add fo prompt completion else Inr JNull) (\<lambda>total.
                     Inr (prompt, completion, total)))
             else Inr (JNull, JNull, JNull))
        | _ \<Rightarrow> Inl AttributeError)"

section \<open>Request facts\<close>

text \<open>
  Iteration over a decoded value: a list yields its elements, a string its characters,
  a dict its keys (\<open>reversed\<close> of a dict from Python 3.8 on); the others are not iterable.
\<close>

fun py_iter :: "json \<Rightarrow> py_error + json list" where
  "py_iter (JArr xs) = Inr xs"
| "py_iter (JStr s) = Inr (map (\<lambda>c. JStr [c]) s)"
| "py_iter (JObj kvs) = Inr (map (\<lambda>kv. JStr (fst kv)) kvs)"
| "py_iter v = Inl TypeError"

definition py_reversed :: "json \<Rightarrow> py_error + json list" where
  "py_reversed v = ebind (py_iter v) (\<lambda>xs. Inr (rev xs))"

text \<open>
  \<^verbatim>\<open>
  next((m.get("content", "") for m in reversed(messages) if m.get("role") == "user"), "")
  "\n".join(m.get("content", "") for m in messages if m.get("role") == "system")
  \<close>
  \<open>next\<close> stops at the first match and leaves the rest of the generator untouched;
  \<open>join\<close> consumes its generator before it looks at the items.
\<close>

fun first_user :: "json list \<Rightarrow> py_error + json" where
  "first_user [] = Inr (JStr [])"
| "first_user (m # ms) =
     ebind (py_get m (S ''role'') JNull) (\<lambda>role.
       if role = JStr (S ''user'') then py_get m (S ''content'') (JStr [])
       else first_user ms)"

definition last_user_message :: "json \<Rightarrow> py_error + json" where
  "last_user_message messages = ebind (py_reversed messages) first_user"

fun system_contents :: "json list \<Rightarrow> py_error + json list" where
  "system_contents [] = Inr []"
| "system_contents (m # ms) =
     ebind (py_get m (S ''role'') JNull) (\<lambda>role.
       if role = JStr (S ''system'') then
         ebind (py_get m (S ''content'') (JStr [])) (\<lambda>c.
         ebind (system_contents ms) (\<lambda>cs. Inr (c # cs)))
       else system_contents ms)"

definition all_system_messages :: "json \<Rightarrow> py_error + pystr" where
  "all_system_messages messages =
     ebind (py_iter messages) (\<lambda>ms.
     ebind (system_contents ms) (py_join [0x0A]))"

record request_facts =
  rf_model :: json
  rf_temperature :: json
  rf_prompt :: json
  rf_system :: pystr

section \<open>The chat-completions handler, request side\<close>

text \<open>
  \<open>d.pop(k, default)\<close>: the value and the dict without the key. \<open>list.pop\<close> takes one
  argument at most; the other values have no \<open>pop\<close>.
\<close>

fun py_pop :: "json \<Rightarrow> pystr \<Rightarrow> json \<Rightarrow> py_error + (json \<times> json)" where
  "py_pop (JObj kvs) k d = Inr (dict_get kvs k d, JObj (filter (\<lambda>kv. fst kv \<noteq> k) kvs))"
| "py_pop (JArr xs) k d = Inl TypeError"
| "py_pop v k d = Inl AttributeError"

text \<open>
  \<^verbatim>\<open>
  async def chat_completions(request):
      payload = await request.json()
      dify_options = payload.pop("options", None) or {}
      payload.pop("format", None)
      messages = payload.get("messages", [])
      user_prompt = next(...)
      system_messages = "\n".join(...)
      request_model = payload.get("model", "")
      request_temperature = payload.get("temperature") or dify_options.get("temperature")
  \<close>
  The result is the payload that is forwarded to the client library and the facts
  recorded on the span.
\<close>

definition chat_completions_request :: "json \<Rightarrow> py_error + (json \<times> request_facts)" where
  "chat_completions_request payload0 =
     ebind (py_pop payload0 (S ''options'') JNull) (\<lambda>(opts, payload1).
     let dify_options = (if truthy opts then opts else JObj []) in
     ebind (py_pop payload1 (S ''format'') JNull) (\<lambda>(fmt, payload).
     ebind (py_get payload (S ''messages'') (JArr [])) (\<lambda>messages.
     ebind (last_user_message messages) (\<lambda>user_prompt.
     ebind (all_system_messages messages) (\<lambda>system_messages.
     ebind (py_get payload (S ''model'') (JStr [])) (\<lambda>request_model.
     ebind (py_get payload (S ''temperature'') JNull) (\<lambda>t.
     ebind (if truthy t then Inr t else py_get dify_options (S ''temperature'') JNull)
       (\<lambda>request_temperature.
         Inr (payload,
              \<lparr>rf_model = request_model, rf_temperature = request_temperature,
               rf_prompt = user_prompt, rf_system = system_messages\<rparr>)))))))))"

section \<open>The catch-all proxy handler\<close>

text \<open>
  \<^verbatim>\<open>
  req_data = _extract_last_json_from_blob(body_str)
  req_model = req_data.get("model", "")
  req_temperature = req_data.get("temperature") or req_data.get("options", {}).get("temperature")
  messages = req_data.get("messages", [])
  req_user_prompt = next(...)
  req_system_prompt = "\n".join(...)
  \<close>
  The call gives no prefix, so the parser runs with its default.
\<close>

definition proxy_req_data :: "(pystr \<Rightarrow> json option) \<Rightarrow> pystr \<Rightarrow> json" where
  "proxy_req_data loads body_str = extract_last_json_from_blob loads body_str default_prefix"

definition proxy_request_facts :: "(pystr \<Rightarrow> json option) \<Rightarrow> pystr \<Rightarrow> py_error + request_facts" where
  "proxy_request_facts loads body_str =
     (let req_data = proxy_req_data loads body_str in
      ebind (py_get req_data (S ''model'') (JStr [])) (\<lambda>req_model.
      ebind (py_get req_data (S ''temperature'') JNull) (\<lambda>t.
      ebind (if truthy t then Inr t
             else ebind (py_get req_data (S ''options'') (JObj [])) (\<lambda>options.
                    py_get options (S ''temperature'') JNull)) (\<lambda>req_temperature.
      ebind (py_get req_data (S ''messages'') (JArr [])) (\<lambda>messages.
      ebind (last_user_message messages) (\<lambda>req_user_prompt.
      ebind (all_system_messages messages) (\<lambda>req_system_prompt.
        Inr \<lparr>rf_model = req_model, rf_temperature = req_temperature,
             rf_prompt = req_user_prompt, rf_system = req_system_prompt\<rparr>)))))))"

text \<open>
  \<^verbatim>\<open>
  completion_text = _aggregate_completion_from_stream(resp_text, prefix="")
  if not completion_text:
      resp_data = _extract_last_json_from_blob(resp_text, prefix="")
      completion_text = _extract_first_completion_text(resp_data) or resp_data.get("message", {}).get("content", "")
  resp_data = _extract_last_json_from_blob(resp_text, prefix="")
  in_tokens, out_tokens, total_tokens = _extract_usage_from_data(resp_data)
  \<close>
\<close>

definition proxy_completion_text :: "(pystr \<Rightarrow> json option) \<Rightarrow> pystr \<Rightarrow> py_error + json" where
  "proxy_completion_text loads resp_text =
     ebind (aggregate_completion_from_stream loads resp_text []) (\<lambda>completion_text.
       if completion_text \<noteq> [] then Inr (JStr completion_text)
       else
         (let resp_data = extract_last_json_from_blob loads resp_text [] in
          ebind (extract_first_completion_text resp_data) (\<lambda>first.
            if truthy first then Inr first
            else ebind (py_get resp_data (S ''message'') (JObj [])) (\<lambda>message.
                   py_get message (S ''content'') (JStr [])))))"

definition proxy_usage ::
  "(pystr \<Rightarrow> json option) \<Rightarrow> float_ops \<Rightarrow> pystr \<Rightarrow> py_error + (json \<times> json \<times> json)" where
  "proxy_usage loads fo resp_text =
     extract_usage_from_data fo (extract_last_json_from_blob loads resp_text [])"

text \<open>
  \<^verbatim>\<open>
  safe_headers = {k: v for k, v in resp.headers.items()
                  if k.lower() not in ("content-encoding", "transfer-encoding")}
  return Response(content=resp.content, status_code=resp.status_code,
                  headers=safe_headers, media_type=resp.headers.get("content-type"))
  \<close>
  The backend's response is the HTTP client's result: its body, its status code and the
  pairs of \<open>resp.headers.items()\<close>. Header names are ASCII, where \<open>str.lower\<close> changes
  the letters A to Z only. A dict comprehension keeps the position of a key's first
  binding and the value of its last. The header lookup of the client library ignores
  case.
\<close>

record backend_response =
  resp_content :: pybytes
  resp_status_code :: int
  resp_headers :: "(pystr \<times> pystr) list"

record http_response =
  content :: pybytes
  status_code :: int
  headers :: "(pystr \<times> pystr) list"
  media_type :: "pystr option"

definition lower :: "pystr \<Rightarrow> pystr" where
  "lower s = map (\<lambda>c. if 0x41 \<le> c \<and> c \<le> 0x5A then c + 0x20 else c) s"

fun dict_set :: "('k \<times> 'v) list \<Rightarrow> 'k \<Rightarrow> 'v \<Rightarrow> ('k \<times> 'v) list" where
  "dict_set [] k v = [(k, v)]"
| "dict_set ((k', v') # kvs) k v =
     (if k' = k then (k', v) # kvs else (k', v') # dict_set kvs k v)"

definition dict_of_items :: "('k \<times> 'v) list \<Rightarrow> ('k \<times> 'v) list" where
  "dict_of_items items = foldl (\<lambda>d kv. dict_set d (fst kv) (snd kv)) [] items"

definition safe_headers :: "(pystr \<times> pystr) list \<Rightarrow> (pystr \<times> pystr) list" where
  "safe_headers items =
     dict_of_items (filter (\<lambda>kv. lower (fst kv) \<noteq> S ''content-encoding''
                                \<and> lower (fst kv) \<noteq> S ''transfer-encoding'') items)"

definition headers_get :: "(pystr \<times> pystr) list \<Rightarrow> pystr \<Rightarrow> pystr option" where
  "headers_get items name = map_of (map (\<lambda>kv. (lower (fst kv), snd kv)) items) name"

definition proxy_response :: "backend_response \<Rightarrow> http_response" where
  "proxy_response resp =
     \<lparr>content = resp_content resp, status_code = resp_status_code resp,
      headers = safe_headers (resp_headers resp),
      media_type = headers_get (resp_headers resp) (S ''content-type'')\<rparr>"

text \<open>
  The handler, from the request body to the response it returns. \<open>decode\<close> is
  \<open>bytes.decode(errors="replace")\<close>; the span only receives the facts. An exception of
  any step leaves the handler, and no response is built.
\<close>

record proxy_trace =
  pt_request :: request_facts
  pt_completion :: json
  pt_usage :: "json \<times> json \<times> json"

definition dumb_proxy ::
  "(pybytes \<Rightarrow> pystr) \<Rightarrow> (pystr \<Rightarrow> json option) \<Rightarrow> float_ops \<Rightarrow> pybytes \<Rightarrow> backend_response
     \<Rightarrow> py_error + (proxy_trace \<times> http_response)" where
  "dumb_proxy decode loads fo body_bytes resp =
     (let body_str = decode body_bytes in
      ebind (proxy_request_facts loads body_str) (\<lambda>req.
      let resp_text = decode (resp_content resp) in
      ebind (proxy_completion_text loads resp_text) (\<lambda>completion_text.
      ebind (proxy_usage loads fo resp_text) (\<lambda>usage.
        Inr (\<lparr>pt_request = req, pt_completion = completion_text, pt_usage = usage\<rparr>,
             proxy_response resp)))))"

text \<open>
  What \<open>json.loads\<close> yields for a line \<open>{"message":{"role":"assistant","content":c}}\<close> of
  the native streaming dialect.
\<close>

definition native_event :: "pystr \<Rightarrow> json" where
  "native_event c =
     JObj [(S ''message'', JObj [(S ''role'', JStr (S ''assistant'')), (S ''content'', JStr c)])]"

text \<open>
  A \<open>float_ops\<close> for the concrete payloads below: none of them holds a float, so neither
  field is consulted.
\<close>

definition no_float_ops :: float_ops where
  "no_float_ops = \<lparr>float_add = (\<lambda>x y. x), float_of_int = (\<lambda>i. None)\<rparr>"

section \<open>Properties\<close>

lemmas str_defs = stripped_lines_def splitlines_def is_linebreak_def strip_def is_space_def
  candidate_def str_in_def split1_last_def default_prefix_def

lemmas py_defs = safe_json_loads_def ebind_def dict_get_def dict_has_def py_join_def

subsection \<open>The stream aggregator\<close>

lemma candidate_no_prefix: "candidate [] ln = ln"
  by (simp add: candidate_def)

lemma aggregate_line_native:
  "loads (candidate prefix ln) = Some (native_event c) \<Longrightarrow>
   aggregate_line loads prefix pieces ln = Inr (pieces @ [JStr c])"
  by (simp add: aggregate_line_def native_event_def py_defs)

lemma aggregate_lines_native:
  "map (\<lambda>ln. loads (candidate prefix ln)) lns = map (\<lambda>c. Some (native_event c)) cs \<Longrightarrow>
   aggregate_lines loads prefix pieces lns = Inr (pieces @ map JStr cs)"
proof (induction lns arbitrary: pieces cs)
  case Nil
  then show ?case by simp
next
  case (Cons ln lns)
  then obtain c cs' where cs: "cs = c # cs'" by (cases cs) auto
  with Cons.prems have hd: "loads (candidate prefix ln) = Some (native_event c)"
    and tl: "map (\<lambda>ln. loads (candidate prefix ln)) lns = map (\<lambda>c. Some (native_event c)) cs'"
    by simp_all
  show ?case
    using Cons.IH [OF tl, of "pieces @ [JStr c]"] hd
    by (simp add: cs ebind_def aggregate_line_native [where c = c])
qed

lemma strs_of_strings: "strs_of (map JStr cs) = Some cs"
  by (induction cs) simp_all

lemma join_strs_empty_sep: "join_strs [] ss = concat ss"
  by (induction "[] :: pystr" ss rule: join_strs.induct) simp_all

text \<open>
  When the candidate of every stripped line decodes to a native event, the result is the
  contents in line order with nothing between them.
\<close>

lemma aggregate_native_concat:
  assumes "map (\<lambda>ln. loads (candidate prefix ln)) (stripped_lines blob)
             = map (\<lambda>c. Some (native_event c)) cs"
  shows "aggregate_completion_from_stream loads blob prefix = Inr (concat cs)"
proof (cases "blob = []")
  case True
  with assms have "cs = []" by (simp add: stripped_lines_def splitlines_def)
  with True show ?thesis by (simp add: aggregate_completion_from_stream_def)
next
  case False
  then show ?thesis
    using aggregate_lines_native [OF assms, of "[]"]
    by (simp add: aggregate_completion_from_stream_def ebind_def py_join_def
        strs_of_strings join_strs_empty_sep)
qed

lemma aggregate_two_events:
  \<open>aggregate_completion_from_stream
     (map_of [(S ''{"message":{"role":"assistant","content":"foo"}}'', native_event (S ''foo'')),
              (S ''{"message":{"role":"assistant","content":"bar"}}'', native_event (S ''bar''))])
     (S ''{"message":{"role":"assistant","content":"foo"}}'' @ [0x0A]
        @ S ''{"message":{"role":"assistant","content":"bar"}}'') []
     = Inr (S ''foobar'')\<close>
  using aggregate_native_concat [of
      \<open>map_of [(S ''{"message":{"role":"assistant","content":"foo"}}'', native_event (S ''foo'')),
               (S ''{"message":{"role":"assistant","content":"bar"}}'', native_event (S ''bar''))]\<close>
      \<open>[]\<close>
      \<open>S ''{"message":{"role":"assistant","content":"foo"}}'' @ [0x0A]
         @ S ''{"message":{"role":"assistant","content":"bar"}}''\<close>
      \<open>[S ''foo'', S ''bar'']\<close>]
  by (simp add: str_defs)

text \<open>
  A stream written as events joined by \<open>\n\<close> is cut back into exactly those events
  provided that no event holds a character at which \<open>str.splitlines\<close> breaks; then the
  aggregator returns the concatenation of the contents.
\<close>

lemma split_acc_no_break:
  "\<forall>c\<in>set e. \<not> is_linebreak c \<Longrightarrow> split_acc acc (e @ rest) = split_acc (rev e @ acc) rest"
proof (induction e arbitrary: acc)
  case Nil
  then show ?case by simp
next
  case (Cons c e)
  then have "\<not> is_linebreak c" and "c \<noteq> 0x0D" by (auto simp: is_linebreak_def)
  with Cons show ?case by simp
qed

lemma split_acc_newline: "split_acc acc (0x0A # rest) = rev acc # split_acc [] rest"
  by (simp add: is_linebreak_def)

lemma splitlines_join:
  "\<forall>e\<in>set es. e \<noteq> [] \<and> (\<forall>c\<in>set e. \<not> is_linebreak c) \<Longrightarrow>
   splitlines (join_strs [0x0A] es) = es"
proof (induction "[0x0A] :: pystr" es rule: join_strs.induct)
  case 1
  then show ?case by (simp add: splitlines_def)
next
  case (2 s)
  then show ?case
    using split_acc_no_break [of s "[]" "[]"] by (simp add: splitlines_def)
next
  case (3 s t ss)
  then have IH: "split_acc [] (join_strs [0x0A] (t # ss)) = t # ss"
    by (simp add: splitlines_def)
  from 3 have "split_acc [] (s @ 0x0A # join_strs [0x0A] (t # ss))
      = split_acc (rev s) (0x0A # join_strs [0x0A] (t # ss))"
    using split_acc_no_break [of s "[]" "0x0A # join_strs [0x0A] (t # ss)"] by simp
  with IH show ?case
    by (simp add: splitlines_def split_acc_newline del: split_acc.simps)
qed

lemma strip_nonempty: "strip e \<noteq> [] \<Longrightarrow> e \<noteq> []"
  by (auto simp: strip_def)

lemma aggregate_native_stream:
  assumes lines: "\<forall>e\<in>set es. strip e \<noteq> [] \<and> (\<forall>c\<in>set e. \<not> is_linebreak c)"
    and events: "map (\<lambda>e. loads (candidate prefix (strip e))) es
                   = map (\<lambda>c. Some (native_event c)) cs"
  shows "aggregate_completion_from_stream loads (join_strs [0x0A] es) prefix = Inr (concat cs)"
proof -
  from lines have "splitlines (join_strs [0x0A] es) = es"
    by (intro splitlines_join) (auto dest: strip_nonempty)
  with lines have "stripped_lines (join_strs [0x0A] es) = map strip es"
    by (simp add: stripped_lines_def filter_id_conv)
  with events show ?thesis
    by (intro aggregate_native_concat) (simp add: comp_def)
qed

text \<open>
  Claim C8 says that for every blob whose non-empty lines are all native-dialect events
  \<open>{"message":{"role":"assistant","content":c\<^sub>i}}\<close> with string contents, the aggregator
  returns \<open>c\<^sub>1 c\<^sub>2 ...\<close>. The code cuts the blob with \<open>str.splitlines()\<close>, which breaks
  not only at \<open>\n\<close> but also at U+0085, U+2028 and U+2029, characters that JSON allows
  unescaped inside a string. An event whose content holds one of them is cut in two, neither
  half decodes, and its content is lost: of the two events with the contents \<open>a<U+0085>b\<close>
  and \<open>c\<close> only \<open>c\<close> is returned, and the single event with the content \<open>a<U+2028>b\<close>
  yields the empty string. (\<open>json.loads\<close> accepts both event lines whole; the code never
  passes them to it.)
\<close>

theorem aggregate_cuts_inside_content:
  \<open>aggregate_completion_from_stream
     (map_of [(S ''{"message":{"role":"assistant","content":"a'' @ [0x85] @ S ''b"}}'',
                 native_event (S ''a'' @ [0x85] @ S ''b'')),
              (S ''{"message":{"role":"assistant","content":"c"}}'', native_event (S ''c''))])
     (S ''{"message":{"role":"assistant","content":"a'' @ [0x85] @ S ''b"}}'' @ [0x0A]
        @ S ''{"message":{"role":"assistant","content":"c"}}'') []
     = Inr (S ''c'')
   \<and> aggregate_completion_from_stream
     (map_of [(S ''{"message":{"role":"assistant","content":"a'' @ [0x2028] @ S ''b"}}'',
                 native_event (S ''a'' @ [0x2028] @ S ''b''))])
     (S ''{"message":{"role":"assistant","content":"a'' @ [0x2028] @ S ''b"}}'') []
     = Inr []\<close>
  by (simp add: aggregate_completion_from_stream_def aggregate_line_def native_event_def
      str_defs py_defs)

text \<open>
  Claim C1 says that the aggregator and \<open>_extract_first_completion_text\<close> return a value
  on every input, an empty \<open>choices\<close> array and a \<open>message\<close> that is no mapping included.
  The code raises there: \<open>{"choices":[]}\<close> makes the aggregator index an empty list
  (\<open>IndexError\<close>), \<open>{"message":"hi"}\<close> makes it call \<open>get\<close> on a string
  (\<open>AttributeError\<close>), and on the payload \<open>{"choices": []}\<close> the handler of \<open>except\<close> in
  \<open>_extract_first_completion_text\<close> indexes the empty list again.
\<close>

theorem aggregate_and_first_completion_raise:
  \<open>aggregate_completion_from_stream
       (map_of [(S ''{"choices":[]}'', JObj [(S ''choices'', JArr [])])])
       (S ''{"choices":[]}'') [] = Inl IndexError
   \<and> aggregate_completion_from_stream
       (map_of [(S ''{"message":"hi"}'', JObj [(S ''message'', JStr (S ''hi''))])])
       (S ''{"message":"hi"}'') [] = Inl AttributeError
   \<and> extract_first_completion_text (JObj [(S ''choices'', JArr [])]) = Inl IndexError\<close>
  by (simp add: aggregate_completion_from_stream_def aggregate_line_def
      extract_first_completion_text_def str_defs py_defs)

subsection \<open>The blob parser\<close>

text \<open>The parser returns the empty dict or a decoded value that is true, whatever its
  type: the lines whose decoded value is false are the ones it passes over.\<close>

lemma scan_lines_empty_or_truthy:
  "scan_lines loads prefix lns = JObj [] \<or> truthy (scan_lines loads prefix lns)"
  by (induction lns) (simp_all add: Let_def)

lemma extract_last_json_empty_or_truthy:
  "extract_last_json_from_blob loads blob prefix = JObj []
   \<or> truthy (extract_last_json_from_blob loads blob prefix)"
  using scan_lines_empty_or_truthy by (simp add: extract_last_json_from_blob_def Let_def)

text \<open>
  Claim C2 says that the blob parser returns a mapping on every blob and skips a line that
  decodes to an array, a number, a string or a boolean. The code tests the decoded value
  for truth only: the blob \<open>[1]\<close> decodes to a non-empty list, which is returned as it is,
  under the default prefix and under the empty one.
\<close>

theorem extract_last_json_returns_array:
  \<open>extract_last_json_from_blob (map_of [(S ''[1]'', JArr [JInt 1])]) (S ''[1]'') default_prefix
     = JArr [JInt 1]
   \<and> extract_last_json_from_blob (map_of [(S ''[1]'', JArr [JInt 1])]) (S ''[1]'') []
     = JArr [JInt 1]\<close>
  by (simp add: extract_last_json_from_blob_def str_defs py_defs)

subsection \<open>The fact extractor\<close>

text \<open>
  Claim C3 says that a payload whose first choice is a mapping with a \<open>text\<close> and without
  \<open>message.content\<close> yields that text. On \<open>{"choices":[{"text":"t"}]}\<close> no lookup of the
  \<open>try\<close> block raises (each \<open>get\<close> has a default), so the handler that reads \<open>text\<close> is
  never entered and the result is the empty string.
\<close>

theorem first_completion_text_ignores_text:
  \<open>extract_first_completion_text
      (JObj [(S ''choices'', JArr [JObj [(S ''text'', JStr (S ''t''))]])]) = Inr (JStr [])\<close>
  by (simp add: extract_first_completion_text_def py_defs)

text \<open>
  Claim C4 says that whenever both counts are present and the payload carries no total,
  the returned total is their sum, under both schemas. Under the \<open>usage\<close> schema the code
  returns \<open>usage.get("total_tokens")\<close> and adds nothing: for
  \<open>{"usage":{"prompt_tokens":10,"completion_tokens":5}}\<close> the total is \<open>None\<close>.
\<close>

theorem usage_schema_total_not_summed:
  "extract_usage_from_data no_float_ops
     (JObj [(S ''usage'', JObj [(S ''prompt_tokens'', JInt 10), (S ''completion_tokens'', JInt 5)])])
   = Inr (JInt 10, JInt 5, JNull)"
  by (simp add: extract_usage_from_data_def py_defs)

text \<open>
  Claim C4 as amended. Under the native schema (the \<open>usage\<close> entry is absent or false) with
  integer \<open>prompt_eval_count\<close> and \<open>eval_count\<close>, the total is present and is their sum.
  Under the \<open>usage\<close> schema (a non-empty \<open>usage\<close> object) the three facts are the entries
  \<open>prompt_tokens\<close>, \<open>completion_tokens\<close> and \<open>total_tokens\<close> of that object, each \<open>None\<close>
  when its key is absent: the total is read, never computed.
\<close>

theorem usage_total_by_schema:
  "(\<not> truthy (dict_get kvs (S ''usage'') (JObj []))
      \<and> map_of kvs (S ''prompt_eval_count'') = Some (JInt p)
      \<and> map_of kvs (S ''eval_count'') = Some (JInt c)
    \<longrightarrow> extract_usage_from_data fo (JObj kvs) = Inr (JInt p, JInt c, JInt (p + c)))
   \<and> (map_of kvs (S ''usage'') = Some (JObj u) \<and> u \<noteq> []
    \<longrightarrow> extract_usage_from_data fo (JObj kvs)
        = Inr (dict_get u (S ''prompt_tokens'') JNull, dict_get u (S ''completion_tokens'') JNull,
               dict_get u (S ''total_tokens'') JNull))"
proof (intro conjI impI)
  assume a: "\<not> truthy (dict_get kvs (S ''usage'') (JObj []))
      \<and> map_of kvs (S ''prompt_eval_count'') = Some (JInt p)
      \<and> map_of kvs (S ''eval_count'') = Some (JInt c)"
  then have "kvs \<noteq> []" by auto
  with a show "extract_usage_from_data fo (JObj kvs) = Inr (JInt p, JInt c, JInt (p + c))"
    by (simp add: extract_usage_from_data_def Let_def dict_has_def ebind_def py_add_def)
      (simp add: dict_get_def)
next
  assume a: "map_of kvs (S ''usage'') = Some (JObj u) \<and> u \<noteq> []"
  then have "kvs \<noteq> []" by auto
  with a show "extract_usage_from_data fo (JObj kvs)
        = Inr (dict_get u (S ''prompt_tokens'') JNull, dict_get u (S ''completion_tokens'') JNull,
               dict_get u (S ''total_tokens'') JNull)"
    by (simp add: extract_usage_from_data_def Let_def ebind_def) (simp add: dict_get_def)
qed

theorem usage_total_by_schema_witness:
  "extract_usage_from_data no_float_ops
     (JObj [(S ''prompt_eval_count'', JInt 7), (S ''eval_count'', JInt 4)])
     = Inr (JInt 7, JInt 4, JInt 11)
   \<and> extract_usage_from_data no_float_ops
     (JObj [(S ''usage'', JObj [(S ''prompt_tokens'', JInt 3), (S ''completion_tokens'', JInt 1),
                                (S ''total_tokens'', JInt 9)])])
     = Inr (JInt 3, JInt 1, JInt 9)"
  using
    usage_total_by_schema [where fo = no_float_ops and p = 7 and c = 4 and u = "[]"
      and kvs = "[(S ''prompt_eval_count'', JInt 7), (S ''eval_count'', JInt 4)]"]
    usage_total_by_schema [where fo = no_float_ops and p = 0 and c = 0
      and u = "[(S ''prompt_tokens'', JInt 3), (S ''completion_tokens'', JInt 1),
                (S ''total_tokens'', JInt 9)]"
      and kvs = "[(S ''usage'', JObj [(S ''prompt_tokens'', JInt 3),
                   (S ''completion_tokens'', JInt 1), (S ''total_tokens'', JInt 9)])]"]
  by (simp add: dict_get_def)

text \<open>
  The usage facts of \<open>{"usage":{"prompt_tokens":10,"completion_tokens":5}}\<close> are
  \<open>(10, 5, None)\<close>, those of \<open>{"prompt_eval_count":10,"eval_count":5}\<close> are \<open>(10, 5, 15)\<close>,
  and a payload whose \<open>usage\<close> entry is absent or false (an empty object, \<open>null\<close>, 0) and
  which has neither native count field yields \<open>(None, None, None)\<close>.
\<close>

lemma usage_facts_examples:
  "extract_usage_from_data fo
     (JObj [(S ''usage'', JObj [(S ''prompt_tokens'', JInt 10), (S ''completion_tokens'', JInt 5)])])
     = Inr (JInt 10, JInt 5, JNull)
   \<and> extract_usage_from_data fo
     (JObj [(S ''prompt_eval_count'', JInt 10), (S ''eval_count'', JInt 5)])
     = Inr (JInt 10, JInt 5, JInt 15)
   \<and> (\<not> truthy (dict_get kvs (S ''usage'') (JObj []))
        \<and> \<not> dict_has kvs (S ''prompt_eval_count'') \<and> \<not> dict_has kvs (S ''eval_count'')
      \<longrightarrow> extract_usage_from_data fo (JObj kvs) = Inr (JNull, JNull, JNull))"
proof (intro conjI impI)
  show "extract_usage_from_data fo
     (JObj [(S ''usage'', JObj [(S ''prompt_tokens'', JInt 10), (S ''completion_tokens'', JInt 5)])])
     = Inr (JInt 10, JInt 5, JNull)"
    by (simp add: extract_usage_from_data_def py_defs)
  show "extract_usage_from_data fo
     (JObj [(S ''prompt_eval_count'', JInt 10), (S ''eval_count'', JInt 5)])
     = Inr (JInt 10, JInt 5, JInt 15)"
    by (simp add: extract_usage_from_data_def py_defs py_add_def)
next
  assume "\<not> truthy (dict_get kvs (S ''usage'') (JObj []))
        \<and> \<not> dict_has kvs (S ''prompt_eval_count'') \<and> \<not> dict_has kvs (S ''eval_count'')"
  then show "extract_usage_from_data fo (JObj kvs) = Inr (JNull, JNull, JNull)"
    by (simp add: extract_usage_from_data_def Let_def)
qed

text \<open>
  Claim C5 says that the usage facts are \<open>(10, 5, None)\<close> and \<open>(10, 5, 15)\<close> for its two
  examples, and \<open>(None, None, None)\<close> for every payload that contains neither a non-empty
  \<open>usage\<close> object nor one of the two native count fields. The payloads \<open>{"usage": 5}\<close> and
  \<open>{"usage": "n/a"}\<close> contain neither, yet the code returns nothing for them: their
  \<open>usage\<close> is true, so the first branch is taken, and \<open>usage.get\<close> on a value that is no
  dict raises \<open>AttributeError\<close>.
\<close>

theorem usage_facts_raise_on_non_mapping_usage:
  "extract_usage_from_data no_float_ops (JObj [(S ''usage'', JInt 5)]) = Inl AttributeError
   \<and> extract_usage_from_data no_float_ops (JObj [(S ''usage'', JStr (S ''n/a''))])
       = Inl AttributeError"
  by (simp add: extract_usage_from_data_def py_defs)

text \<open>
  Claim C10. A payload whose \<open>usage\<close> is a non-empty object without the keys
  \<open>prompt_tokens\<close>, \<open>completion_tokens\<close> and \<open>total_tokens\<close> yields \<open>(None, None, None)\<close>,
  whatever else it holds: \<open>prompt_eval_count\<close> and \<open>eval_count\<close> are not looked at.
\<close>

theorem usage_object_shadows_native:
  assumes "map_of kvs (S ''usage'') = Some (JObj u)" and "u \<noteq> []"
    and "\<not> dict_has u (S ''prompt_tokens'')"
    and "\<not> dict_has u (S ''completion_tokens'')"
    and "\<not> dict_has u (S ''total_tokens'')"
  shows "extract_usage_from_data fo (JObj kvs) = Inr (JNull, JNull, JNull)"
proof -
  from assms(1) have "kvs \<noteq> []" by auto
  then show ?thesis using assms
    by (simp add: extract_usage_from_data_def py_defs)
qed

theorem usage_object_shadows_native_witness:
  "extract_usage_from_data no_float_ops
     (JObj [(S ''usage'', JObj [(S ''tokens'', JInt 15)]),
            (S ''prompt_eval_count'', JInt 10), (S ''eval_count'', JInt 5)])
   = Inr (JNull, JNull, JNull)"
  using usage_object_shadows_native [where fo = no_float_ops
      and u = "[(S ''tokens'', JInt 15)]"
      and kvs = "[(S ''usage'', JObj [(S ''tokens'', JInt 15)]),
                  (S ''prompt_eval_count'', JInt 10), (S ''eval_count'', JInt 5)]"]
  by (simp add: dict_has_def)

subsection \<open>Request facts of the two handlers\<close>

text \<open>
  Claim C6 says that a top-level \<open>temperature\<close>, the value 0 included, is the temperature
  recorded, and that the one inside \<open>options\<close> is used only when the top-level field is
  absent. Both handlers write \<open>payload.get("temperature") or ...\<close>, and \<open>or\<close> takes its
  second operand whenever the first is false: for
  \<open>{"temperature":0,"options":{"temperature":1}}\<close> both derive 1. (The handlers record the
  temperature \<open>if ... is not None\<close>, so 0 is a value they mean to record.)
\<close>

theorem temperature_zero_falls_back_to_options:
  \<open>chat_completions_request
      (JObj [(S ''temperature'', JInt 0), (S ''options'', JObj [(S ''temperature'', JInt 1)])])
    = Inr (JObj [(S ''temperature'', JInt 0)],
           \<lparr>rf_model = JStr [], rf_temperature = JInt 1, rf_prompt = JStr [], rf_system = []\<rparr>)
  \<and> proxy_request_facts
      (map_of [(S ''{"temperature":0,"options":{"temperature":1}}'',
         JObj [(S ''temperature'', JInt 0), (S ''options'', JObj [(S ''temperature'', JInt 1)])])])
      (S ''{"temperature":0,"options":{"temperature":1}}'')
    = Inr \<lparr>rf_model = JStr [], rf_temperature = JInt 1, rf_prompt = JStr [], rf_system = []\<rparr>\<close>
  by (simp add: chat_completions_request_def proxy_request_facts_def proxy_req_data_def
      extract_last_json_from_blob_def last_user_message_def all_system_messages_def
      py_reversed_def str_defs py_defs)

text \<open>
  Claim C7 says that the request payload of the catch-all handler is the blob parser's
  result under the empty prefix, so that nothing is cut from a line of the request body.
  The handler calls the parser without a prefix, which then is \<open>"stringValue:"\<close>: on the
  body \<open>{"model":"m","prompt":"stringValue:"}\<close> the parser decodes what follows the
  prefix, \<open>"}\<close>, which is no JSON, and the payload is empty; under the empty prefix it is
  the whole object. (The calls on the response body in the same handler pass
  \<open>prefix=""\<close>.)
\<close>

theorem proxy_req_data_cuts_default_prefix:
  \<open>proxy_req_data
      (map_of [(S ''{"model":"m","prompt":"stringValue:"}'',
         JObj [(S ''model'', JStr (S ''m'')), (S ''prompt'', JStr (S ''stringValue:''))])])
      (S ''{"model":"m","prompt":"stringValue:"}'') = JObj []
   \<and> extract_last_json_from_blob
      (map_of [(S ''{"model":"m","prompt":"stringValue:"}'',
         JObj [(S ''model'', JStr (S ''m'')), (S ''prompt'', JStr (S ''stringValue:''))])])
      (S ''{"model":"m","prompt":"stringValue:"}'') []
     = JObj [(S ''model'', JStr (S ''m'')), (S ''prompt'', JStr (S ''stringValue:''))]\<close>
  by (simp add: proxy_req_data_def extract_last_json_from_blob_def str_defs py_defs)

subsection \<open>The response of the catch-all handler\<close>

text \<open>
  When the handler returns, its response is \<open>proxy_response\<close> of the backend's: body
  and status code as they came, and of the headers those whose lowered name is neither
  \<open>content-encoding\<close> nor \<open>transfer-encoding\<close>.
\<close>

lemma dumb_proxy_response:
  "dumb_proxy decode loads fo body_bytes resp = Inr (tr, r) \<Longrightarrow> r = proxy_response resp"
  by (auto simp: dumb_proxy_def ebind_def Let_def split: sum.splits)

lemma proxy_response_frame:
  "content (proxy_response resp) = resp_content resp \<and>
   status_code (proxy_response resp) = resp_status_code resp \<and>
   headers (proxy_response resp) = safe_headers (resp_headers resp)"
  by (simp add: proxy_response_def)

lemma dict_set_map_fst:
  "map fst (dict_set d k v) = (if k \<in> set (map fst d) then map fst d else map fst d @ [k])"
  by (induction d) (force simp: image_iff)+

lemma dict_set_keys: "fst ` set (dict_set d k v) = insert k (fst ` set d)"
proof -
  have "set (map fst (dict_set d k v)) = insert k (set (map fst d))"
    unfolding dict_set_map_fst by auto
  then show ?thesis by simp
qed

lemma dict_set_fresh: "k \<notin> fst ` set d \<Longrightarrow> dict_set d k v = d @ [(k, v)]"
  by (induction d) auto

lemma foldl_dict_set_keys:
  "fst ` set (foldl (\<lambda>d kv. dict_set d (fst kv) (snd kv)) d items) = fst ` set d \<union> fst ` set items"
  by (induction items arbitrary: d) (auto simp: dict_set_keys)

lemma foldl_dict_set_distinct:
  "distinct (map fst (d @ items)) \<Longrightarrow>
   foldl (\<lambda>d kv. dict_set d (fst kv) (snd kv)) d items = d @ items"
proof (induction items arbitrary: d)
  case Nil
  then show ?case by simp
next
  case (Cons kv items)
  from Cons.prems have fresh: "fst kv \<notin> fst ` set d" by auto
  from Cons.prems have "distinct (map fst ((d @ [kv]) @ items))" by auto
  from Cons.IH [OF this] fresh show ?case
    by (simp add: dict_set_fresh)
qed

lemma safe_headers_keys:
  "fst ` set (safe_headers items) =
     {k \<in> fst ` set items. lower k \<noteq> S ''content-encoding'' \<and> lower k \<noteq> S ''transfer-encoding''}"
  unfolding safe_headers_def dict_of_items_def foldl_dict_set_keys by auto

lemma safe_headers_distinct:
  "distinct (map fst items) \<Longrightarrow>
   safe_headers items =
     filter (\<lambda>kv. lower (fst kv) \<noteq> S ''content-encoding''
                  \<and> lower (fst kv) \<noteq> S ''transfer-encoding'') items"
proof -
  let ?kept = "filter (\<lambda>kv. lower (fst kv) \<noteq> S ''content-encoding''
                             \<and> lower (fst kv) \<noteq> S ''transfer-encoding'') items"
  assume "distinct (map fst items)"
  then have "distinct (map fst ([] @ ?kept))"
    by (simp add: distinct_map_filter)
  from foldl_dict_set_distinct [OF this] show ?thesis
    by (simp add: safe_headers_def dict_of_items_def)
qed

lemma proxy_response_gzip:
  "proxy_response \<lparr>resp_content = ''ok'', resp_status_code = 200,
       resp_headers = [(S ''content-type'', S ''text/plain''), (S ''Content-Encoding'', S ''gzip'')]\<rparr>
   = \<lparr>content = ''ok'', status_code = 200,
      headers = [(S ''content-type'', S ''text/plain'')],
      media_type = Some (S ''text/plain'')\<rparr>"
  by (simp add: proxy_response_def safe_headers_def dict_of_items_def headers_get_def lower_def)

text \<open>
  Claim C9 says that for every backend response the handler returns the backend's body
  and status code unchanged and its headers without the two encoding headers. The
  response is built last, after the facts for the span have been extracted from the
  response body, and an exception there leaves the handler: for a backend response with
  the body \<open>{"choices":[]}\<close> (status 200, \<open>Content-Encoding: gzip\<close>) the aggregator raises
  \<open>IndexError\<close> and the handler returns no response at all. The bodies are ASCII, which
  \<open>decode\<close> maps byte by byte.
\<close>

theorem dumb_proxy_raises_on_empty_choices:
  \<open>dumb_proxy (\<lambda>bs. map of_char bs)
      (map_of [(S ''{"choices":[]}'', JObj [(S ''choices'', JArr [])])])
      no_float_ops
      []
      \<lparr>resp_content = ''{"choices":[]}'', resp_status_code = 200,
       resp_headers = [(S ''content-type'', S ''application/json''),
                       (S ''Content-Encoding'', S ''gzip'')]\<rparr>
    = Inl IndexError\<close>
  by (simp add: dumb_proxy_def proxy_request_facts_def proxy_req_data_def proxy_completion_text_def
      aggregate_completion_from_stream_def aggregate_line_def
      extract_last_json_from_blob_def last_user_message_def all_system_messages_def
      py_reversed_def str_defs py_defs)

end
